theory Spec2Isabelle
  imports Complex_Main
begin

section \<open>Data model\<close>

text \<open>
  The validation engine is \<^verbatim>\<open>validate_dataset_with_expectations\<close> of
  \<^verbatim>\<open>validator.py\<close>: it loads a file into a pandas DataFrame, appends one dictionary
  per expectation to the list \<^verbatim>\<open>validation_results\<close> and then writes an HTML report.

  A DataFrame is modelled by its row count (\<^verbatim>\<open>len(df)\<close>) and its columns in order; a
  column by its label, its dtype and its cells, a missing cell (None, NaN, NaT) being
  \<open>None\<close>. The type \<open>'v\<close> of cell values is left open. What pandas and Python decide
  about a dtype or a value is taken as given data: the four dtype tests of
  \<^verbatim>\<open>pandas.api.types\<close> are fields of the dtype, and the value-level operations are the
  fields of a record passed to the engine: \<^verbatim>\<open>astype(str)\<close>, the float reductions
  \<^verbatim>\<open>min\<close>, \<^verbatim>\<open>max\<close>, \<^verbatim>\<open>mean\<close>, \<^verbatim>\<open>median\<close>, and, for a value that Python
  cannot hash or that \<^verbatim>\<open>json.dumps\<close> cannot serialise, the name of its type as the
  \<^verbatim>\<open>TypeError\<close> reports it.
  A Python float is written as the real number it denotes, and float arithmetic rounds to
  the nearest double. The text of a string is a list of characters, one per code point;
  the characters are the code points below 256.
\<close>

datatype py_error = is_ValueError: ValueError string | TypeError string | OSError string

record pd_dtype =
  dtype_str :: string
  is_numeric_dtype :: bool
  is_string_dtype :: bool
  is_object :: bool
  is_datetime64_any_dtype :: bool

record 'v series =
  label :: string
  dtype :: pd_dtype
  cells :: "'v option list"

record 'v dataframe =
  columns :: "'v series list"
  row_count :: nat

record 'v py_ops =
  astype_str :: "'v \<Rightarrow> string"
  series_min :: "'v list \<Rightarrow> real"
  series_max :: "'v list \<Rightarrow> real"
  series_mean :: "'v list \<Rightarrow> real"
  series_median :: "'v list \<Rightarrow> real"
  unhashable :: "'v \<Rightarrow> string option"
  unserializable :: "'v \<Rightarrow> string option"

text \<open>
  The value of a key of a \<^verbatim>\<open>result\<close> dictionary. An f-string is kept as the list of
  its segments, the literal text and the interpolated numbers, since the decimal text of a
  number is Python's business.
\<close>

datatype seg = Lit string | IntArg int | FloatArg real

datatype 'v jval =
    JInt int
  | JFloat real
  | JStr string
  | JFmt "seg list"
  | JLabels "string list"
  | JValues "'v list"

record 'v expectation =
  expectation_type :: string
  success :: bool
  column :: "string option"
  result :: "(string \<times> 'v jval) list"

text \<open>
  Every column of a DataFrame has \<^verbatim>\<open>len(df)\<close> cells.
\<close>

definition wf_dataframe :: "'v dataframe \<Rightarrow> bool" where
  "wf_dataframe df = list_all (\<lambda>c. length (cells c) = row_count df) (columns df)"

section \<open>The pandas operations the engine calls\<close>

definition isnull :: "'v option \<Rightarrow> bool" where
  "isnull v = (v = None)"

fun dropna :: "'v option list \<Rightarrow> 'v list" where
  "dropna [] = []"
| "dropna (None # vs) = dropna vs"
| "dropna (Some v # vs) = v # dropna vs"

text \<open>
  \<^verbatim>\<open>unique()\<close> lists the distinct values in order of first appearance (\<open>remdups\<close>
  keeps the last occurrence of each value, hence the two reversals); \<^verbatim>\<open>nunique()\<close>
  counts them.
\<close>

definition unique :: "'v list \<Rightarrow> 'v list" where
  "unique vs = rev (remdups (rev vs))"

definition nunique :: "'v list \<Rightarrow> nat" where
  "nunique vs = length (remdups vs)"

text \<open>
  \<^verbatim>\<open>df[col]\<close> selects by label: all the columns that carry the label. One column is a
  Series; several are a DataFrame.
\<close>

definition getitem :: "'v dataframe \<Rightarrow> string \<Rightarrow> 'v series list" where
  "getitem df col = filter (\<lambda>c. label c = col) (columns df)"

text \<open>
  \<^verbatim>\<open>nunique()\<close> hashes the values; on the first value that cannot be hashed (a list or
  a dictionary from nested JSON) it raises a \<^verbatim>\<open>TypeError\<close>.
\<close>

definition nunique_error :: "'v py_ops \<Rightarrow> 'v list \<Rightarrow> py_error option" where
  "nunique_error ops vs =
     (case List.find (\<lambda>v. unhashable ops v \<noteq> None) vs of
        None \<Rightarrow> None
      | Some v \<Rightarrow> Some (TypeError (''unhashable type: ''
                                    @ [CHR 0x27] @ the (unhashable ops v) @ [CHR 0x27])))"

subsection \<open>Float arithmetic\<close>

text \<open>
  Rounding to the nearest integer, a tie going to the even one (\<^verbatim>\<open>rint\<close>).
\<close>

definition round_half_even :: "real \<Rightarrow> int" where
  "round_half_even y =
     (let f = \<lfloor>y\<rfloor>; d = y - of_int f
      in if d < 1 / 2 then f
         else if 1 / 2 < d then f + 1
         else if even f then f else f + 1)"

text \<open>
  The doubles around a positive real \<open>a\<close> are the multiples of a power of two \<open>u\<close>
  with \<open>2\<^sup>5\<^sup>2 u \<le> a < 2\<^sup>5\<^sup>3 u\<close>, or of \<open>2\<^sup>-\<^sup>1\<^sup>0\<^sup>7\<^sup>4\<close> for the
  subnormal ones; \<open>quantum\<close> searches \<open>u\<close> from 1. Every operation on floats yields
  the double nearest to the exact result, ties to even. Overflow to infinity and NaN are
  left out.
\<close>

fun quantum :: "nat \<Rightarrow> real \<Rightarrow> real \<Rightarrow> real" where
  "quantum 0 a u = u"
| "quantum (Suc n) a u =
     (if a < 2 ^ 52 * u then quantum n a (u / 2)
      else if 2 ^ 53 * u \<le> a then quantum n a (u * 2)
      else u)"

definition double_round :: "real \<Rightarrow> real" where
  "double_round x =
     (if x = 0 then 0
      else (let u = quantum 1074 \<bar>x\<bar> 1 in of_int (round_half_even (x / u)) * u))"

definition fadd :: "real \<Rightarrow> real \<Rightarrow> real" where
  "fadd x y = double_round (x + y)"

definition fmul :: "real \<Rightarrow> real \<Rightarrow> real" where
  "fmul x y = double_round (x * y)"

definition fdiv :: "real \<Rightarrow> real \<Rightarrow> real" where
  "fdiv x y = double_round (x / y)"

text \<open>
  \<^verbatim>\<open>round(x, ndigits)\<close> on a Python float is the double nearest to the exact value of
  \<open>x\<close> rounded to \<open>ndigits\<close> decimals. On a numpy float, as the null percent is, it
  is computed in floats: multiply by \<open>10\<^sup>n\<close>, \<^verbatim>\<open>rint\<close>, divide by \<open>10\<^sup>n\<close>.
\<close>

definition py_round :: "real \<Rightarrow> nat \<Rightarrow> real" where
  "py_round x ndigits = double_round (of_int (round_half_even (x * 10 ^ ndigits)) / 10 ^ ndigits)"

definition np_round :: "real \<Rightarrow> nat \<Rightarrow> real" where
  "np_round x ndigits =
     fdiv (of_int (round_half_even (fmul x (10 ^ ndigits)))) (10 ^ ndigits)"

section \<open>The check battery\<close>

subsection \<open>Table-level validations\<close>

definition row_count_check :: "'v dataframe \<Rightarrow> 'v expectation" where
  "row_count_check df =
     (let row_count = row_count df
      in \<lparr>expectation_type = ''expect_table_row_count_to_be_greater_than'',
          success = (row_count > 0),
          column = None,
          result = [(''observed_value'', JInt (int row_count)),
                    (''element_count'', JInt (int row_count)),
                    (''missing_count'', JInt 0)]\<rparr>)"

definition columns_match_check :: "'v dataframe \<Rightarrow> 'v expectation" where
  "columns_match_check df =
     (let expected_columns = map label (columns df)
      in \<lparr>expectation_type = ''expect_table_columns_to_match_set'',
          success = True,
          column = None,
          result = [(''observed_value'', JLabels expected_columns),
                    (''details'', JFmt [Lit ''Table has '',
                                        IntArg (int (length expected_columns)),
                                        Lit '' columns''])]\<rparr>)"

definition columns_unique_check :: "'v dataframe \<Rightarrow> 'v expectation" where
  "columns_unique_check df =
     (let has_duplicate_cols =
            (length (map label (columns df)) \<noteq> length (remdups (map label (columns df))))
      in \<lparr>expectation_type = ''expect_table_columns_to_be_unique'',
          success = (\<not> has_duplicate_cols),
          column = None,
          result = [(''observed_value'',
                     JStr (if \<not> has_duplicate_cols then ''No duplicate columns''
                           else ''Duplicate columns found''))]\<rparr>)"

definition table_checks :: "'v dataframe \<Rightarrow> 'v expectation list" where
  "table_checks df = [row_count_check df, columns_match_check df, columns_unique_check df]"

subsection \<open>Column-wise validations\<close>

definition null_count :: "'v series \<Rightarrow> nat" where
  "null_count col_data = length (filter isnull (cells col_data))"

definition not_null_check :: "'v dataframe \<Rightarrow> 'v series \<Rightarrow> 'v expectation" where
  "not_null_check df col_data =
     \<lparr>expectation_type = ''expect_column_values_to_not_be_null'',
      success = (null_count col_data = 0),
      column = Some (label col_data),
      result = [(''element_count'', JInt (int (row_count df))),
                (''missing_count'', JInt (int (null_count col_data))),
                (''missing_percent'',
                 (if row_count df > 0
                  then JFloat (np_round
                         (fmul (fdiv (real (null_count col_data)) (real (row_count df))) 100) 2)
                  else JInt 0)),
                (''unexpected_count'', JInt (int (null_count col_data)))]\<rparr>"

definition unique_check :: "'v dataframe \<Rightarrow> 'v series \<Rightarrow> 'v expectation" where
  "unique_check df col_data =
     \<lparr>expectation_type = ''expect_column_values_to_be_unique'',
      success = True,
      column = Some (label col_data),
      result = [(''observed_value'', JStr ''All values are unique''),
                (''unique_count'', JInt (int (nunique (dropna (cells col_data))))),
                (''total_count'', JInt (int (row_count df)))]\<rparr>"

definition numeric_checks ::
  "'v py_ops \<Rightarrow> 'v dataframe \<Rightarrow> 'v series \<Rightarrow> 'v expectation list" where
  "numeric_checks ops df col_data =
     (let col_data_clean = dropna (cells col_data);
          col_min = series_min ops col_data_clean;
          col_max = series_max ops col_data_clean;
          col_mean = series_mean ops col_data_clean;
          col_median = series_median ops col_data_clean
      in [\<lparr>expectation_type = ''expect_column_values_to_be_in_type_list'',
           success = True,
           column = Some (label col_data),
           result = [(''observed_value'', JStr (dtype_str (dtype col_data))),
                     (''details'', JStr ''Column is numeric type'')]\<rparr>,
          \<lparr>expectation_type = ''expect_column_values_to_be_between'',
           success = True,
           column = Some (label col_data),
           result = [(''observed_value'',
                      JFmt [Lit ''min: '', FloatArg col_min, Lit '', max: '', FloatArg col_max]),
                     (''element_count'', JInt (int (length col_data_clean))),
                     (''missing_count'', JInt (int (null_count col_data)))]\<rparr>,
          \<lparr>expectation_type = ''expect_column_mean_to_be_between'',
           success = (col_min \<le> col_mean \<and> col_mean \<le> col_max),
           column = Some (label col_data),
           result = [(''observed_value'', JFloat (py_round col_mean 4)),
                     (''details'',
                      JFmt [Lit ''Mean is within range ['', FloatArg col_min, Lit '', '',
                            FloatArg col_max, Lit '']''])]\<rparr>,
          \<lparr>expectation_type = ''expect_column_median_to_be_between'',
           success = (col_min \<le> col_median \<and> col_median \<le> col_max),
           column = Some (label col_data),
           result = [(''observed_value'', JFloat (py_round col_median 4)),
                     (''details'',
                      JFmt [Lit ''Median is within range ['', FloatArg col_min, Lit '', '',
                            FloatArg col_max, Lit '']''])]\<rparr>]
         @ (if nunique col_data_clean = row_count df then [unique_check df col_data] else []))"

definition string_checks ::
  "'v py_ops \<Rightarrow> 'v dataframe \<Rightarrow> 'v series \<Rightarrow> 'v expectation list" where
  "string_checks ops df col_data =
     (let col_data_clean = dropna (cells col_data);
          str_lengths = map (\<lambda>v. length (astype_str ops v)) col_data_clean;
          min_length = Min (set str_lengths);
          max_length = Max (set str_lengths);
          all_valid_length = (max_length \<le> 255)
      in [\<lparr>expectation_type = ''expect_column_values_to_be_in_type_list'',
           success = True,
           column = Some (label col_data),
           result = [(''observed_value'', JStr ''string/object''),
                     (''details'', JStr ''Column is string/object type'')]\<rparr>,
          \<lparr>expectation_type = ''expect_column_value_lengths_to_be_between'',
           success = all_valid_length,
           column = Some (label col_data),
           result = [(''observed_value'',
                      JFmt [Lit ''min: '', IntArg (int min_length),
                            Lit '', max: '', IntArg (int max_length)]),
                     (''details'',
                      JStr (if all_valid_length then ''String lengths within acceptable range''
                            else ''Some strings exceed 255 chars''))]\<rparr>]
         @ (if nunique col_data_clean = row_count df then [unique_check df col_data] else []))"

definition datetime_checks :: "'v series \<Rightarrow> 'v expectation list" where
  "datetime_checks col_data =
     [\<lparr>expectation_type = ''expect_column_values_to_be_in_type_list'',
       success = True,
       column = Some (label col_data),
       result = [(''observed_value'', JStr ''datetime''),
                 (''details'', JStr ''Column is datetime type'')]\<rparr>]"

definition categorical_check :: "'v series \<Rightarrow> 'v expectation list" where
  "categorical_check col_data =
     (let col_data_clean = dropna (cells col_data);
          unique_count = nunique col_data_clean
      in if 0 < unique_count \<and> unique_count < 30
         then (let allowed_values = unique col_data_clean;
                   unexpected = (0::int)
               in [\<lparr>expectation_type = ''expect_column_values_to_be_in_set'',
                    success = (unexpected = 0),
                    column = Some (label col_data),
                    result = [(''observed_value'',
                               JFmt [IntArg (int unique_count), Lit '' unique values'']),
                              (''element_count'', JInt (int (length col_data_clean))),
                              (''missing_count'', JInt (int (null_count col_data))),
                              (''unexpected_count'', JInt unexpected),
                              (''partial_unexpected_list'',
                               JValues (if length allowed_values > 5
                                        then take 5 allowed_values
                                        else allowed_values))]\<rparr>])
         else [])"

text \<open>
  What one pass of the loop body appends for a column that is a Series, when nothing in
  the pass raises: the null check, the \<^verbatim>\<open>continue\<close> on a column without values, the
  \<^verbatim>\<open>if\<close>/\<^verbatim>\<open>elif\<close> chain on the dtype, and the categorical check.
\<close>

definition column_checks ::
  "'v py_ops \<Rightarrow> 'v dataframe \<Rightarrow> 'v series \<Rightarrow> 'v expectation list" where
  "column_checks ops df col_data =
     (if length (dropna (cells col_data)) = 0 then [not_null_check df col_data]
      else not_null_check df col_data
           # (if is_numeric_dtype (dtype col_data) then numeric_checks ops df col_data
              else if is_string_dtype (dtype col_data) \<or> is_object (dtype col_data)
                   then string_checks ops df col_data
              else if is_datetime64_any_dtype (dtype col_data) then datetime_checks col_data
              else [])
           @ categorical_check col_data)"

text \<open>
  One pass with its exception. Every path past the \<^verbatim>\<open>continue\<close> calls
  \<^verbatim>\<open>nunique()\<close> on the non-null values (at the latest for the categorical check), so
  the pass raises when one of them cannot be hashed. An exception leaves the function and
  the list built so far is lost, so the place in the pass where it is raised does not
  show.
\<close>

definition column_pass ::
  "'v py_ops \<Rightarrow> 'v dataframe \<Rightarrow> 'v series \<Rightarrow> py_error + 'v expectation list" where
  "column_pass ops df col_data =
     (if length (dropna (cells col_data)) = 0 then Inr (column_checks ops df col_data)
      else (case nunique_error ops (dropna (cells col_data)) of
              Some e \<Rightarrow> Inl e
            | None \<Rightarrow> Inr (column_checks ops df col_data)))"

text \<open>
  The loop \<^verbatim>\<open>for col in df.columns: col_data = df[col]\<close>. Under a label that several
  columns share, \<^verbatim>\<open>df[col]\<close> is a DataFrame, \<^verbatim>\<open>null_count\<close> is a Series with one
  entry per column, and \<^verbatim>\<open>int(null_count)\<close> raises a TypeError, which leaves the
  function.
\<close>

fun column_loop ::
  "'v py_ops \<Rightarrow> 'v dataframe \<Rightarrow> string list \<Rightarrow> 'v expectation list
     \<Rightarrow> py_error + 'v expectation list" where
  "column_loop ops df [] validation_results = Inr validation_results"
| "column_loop ops df (col # cols) validation_results =
     (case getitem df col of
        [col_data] \<Rightarrow>
          (case column_pass ops df col_data of
             Inl e \<Rightarrow> Inl e
           | Inr rs \<Rightarrow> column_loop ops df cols (validation_results @ rs))
      | _ \<Rightarrow> Inl (TypeError ''cannot convert the series to <class 'int'>''))"

definition battery :: "'v py_ops \<Rightarrow> 'v dataframe \<Rightarrow> py_error + 'v expectation list" where
  "battery ops df = column_loop ops df (map label (columns df)) (table_checks df)"

section \<open>Loading\<close>

text \<open>
  \<^verbatim>\<open>os.path.basename\<close> and the extension part of \<^verbatim>\<open>os.path.splitext\<close> on POSIX
  paths: the extension starts at the last dot of the last path component, the leading dots
  of that component not counting. \<^verbatim>\<open>str.lower\<close> maps the capital letters among the
  code points below 256: A to Z, and the Latin-1 capitals from 192 to 222 but for the
  multiplication sign 215.
\<close>

definition basename :: "string \<Rightarrow> string" where
  "basename p = rev (takeWhile (\<lambda>c. c \<noteq> CHR ''/'') (rev p))"

definition splitext_ext :: "string \<Rightarrow> string" where
  "splitext_ext p =
     (let b = dropWhile (\<lambda>c. c = CHR ''.'') (basename p)
      in if CHR ''.'' \<in> set b
         then CHR ''.'' # rev (takeWhile (\<lambda>c. c \<noteq> CHR ''.'') (rev b))
         else [])"

definition lower :: "string \<Rightarrow> string" where
  "lower s =
     map (\<lambda>c. let n = (of_char c :: nat)
              in if (65 \<le> n \<and> n \<le> 90) \<or> (192 \<le> n \<and> n \<le> 222 \<and> n \<noteq> 215)
                 then char_of (n + 32) else c) s"

definition path_join :: "string \<Rightarrow> string \<Rightarrow> string" where
  "path_join a b =
     (if b \<noteq> [] \<and> hd b = CHR ''/'' then b
      else if a = [] \<or> last a = CHR ''/'' then a @ b
      else a @ ''/'' @ b)"

text \<open>
  What the function observes of the world: the three pandas readers applied to a path
  (the DataFrame, or the text \<^verbatim>\<open>str(e)\<close> of the exception the reader raises), the
  clock already formatted, and what the operating system answers: the size of a file or
  the error of \<^verbatim>\<open>os.path.getsize\<close>, and the error, if any, with which
  \<^verbatim>\<open>os.makedirs\<close> and \<^verbatim>\<open>open\<close> for writing refuse a path.
\<close>

record 'v world =
  read_csv :: "string \<Rightarrow> string + 'v dataframe"
  read_excel :: "string \<Rightarrow> string + 'v dataframe"
  read_json :: "string \<Rightarrow> string + 'v dataframe"
  now :: string
  getsize :: "string \<Rightarrow> py_error + nat"
  makedirs_error :: "string \<Rightarrow> py_error option"
  open_error :: "string \<Rightarrow> py_error option"

text \<open>
  The \<^verbatim>\<open>try\<close> block: \<open>Inl\<close> carries the text of whatever exception is raised inside
  it, the function's own \<^verbatim>\<open>ValueError\<close> for an unknown extension included. The
  \<^verbatim>\<open>except Exception\<close> clause turns each of them into a new \<^verbatim>\<open>ValueError\<close>.
\<close>

definition try_read :: "'v world \<Rightarrow> string \<Rightarrow> string + 'v dataframe" where
  "try_read w filepath =
     (let ext = lower (splitext_ext filepath)
      in if ext = ''.csv'' then read_csv w filepath
         else if ext \<in> set [''.xlsx'', ''.xls''] then read_excel w filepath
         else if ext = ''.json'' then read_json w filepath
         else Inl (''Unsupported file format: '' @ ext))"

definition load :: "'v world \<Rightarrow> string \<Rightarrow> py_error + 'v dataframe" where
  "load w filepath =
     (case try_read w filepath of
        Inl e \<Rightarrow> Inl (ValueError (''Error reading file: '' @ e))
      | Inr df \<Rightarrow> Inr df)"

section \<open>The report and the whole function\<close>

text \<open>
  The HTML document is kept as the data its template interpolates: the file name, the
  time stamp, the four statistics, the dataset information (the template shows the
  extension in upper case) and the two groups of expectations.
\<close>

record 'v report =
  filename :: string
  timestamp :: string
  total_expectations :: nat
  successful :: nat
  failed :: nat
  success_rate :: real
  rows :: nat
  n_columns :: nat
  size_bytes :: nat
  format_ext :: string
  global_expectations :: "'v expectation list"
  column_expectations :: "(string \<times> 'v expectation list) list"

record 'v filesystem =
  dirs :: "string set"
  files :: "string \<rightharpoonup> 'v report"

record 'v outcome =
  results :: "'v expectation list"
  report_path :: string

fun append_to_key ::
  "string \<Rightarrow> 'a \<Rightarrow> (string \<times> 'a list) list \<Rightarrow> (string \<times> 'a list) list" where
  "append_to_key k v [] = [(k, [v])]"
| "append_to_key k v ((k', vs) # kvs) =
     (if k' = k then (k', vs @ [v]) # kvs else (k', vs) # append_to_key k v kvs)"

fun group_expectations ::
  "'v expectation list \<Rightarrow> 'v expectation list \<times> (string \<times> 'v expectation list) list
     \<Rightarrow> 'v expectation list \<times> (string \<times> 'v expectation list) list" where
  "group_expectations [] acc = acc"
| "group_expectations (res # rest) (global, by_column) =
     (case column res of
        None \<Rightarrow> group_expectations rest (global @ [res], by_column)
      | Some col \<Rightarrow> group_expectations rest (global, append_to_key col res by_column))"

text \<open>
  \<^verbatim>\<open>json.dumps(res['result'])\<close> raises a \<^verbatim>\<open>TypeError\<close> on the first value it cannot
  serialise. Of the values of a result dictionary only the cell values of
  \<^verbatim>\<open>partial_unexpected_list\<close> can be of such a type (a Timestamp, a Timedelta); the
  others are integers, floats, strings and lists of labels.
\<close>

fun jval_error :: "'v py_ops \<Rightarrow> 'v jval \<Rightarrow> py_error option" where
  "jval_error ops (JValues vs) =
     (case List.find (\<lambda>v. unserializable ops v \<noteq> None) vs of
        None \<Rightarrow> None
      | Some v \<Rightarrow> Some (TypeError (''Object of type '' @ the (unserializable ops v)
                                    @ '' is not JSON serializable'')))"
| "jval_error ops (JInt i) = None"
| "jval_error ops (JFloat x) = None"
| "jval_error ops (JStr s) = None"
| "jval_error ops (JFmt segs) = None"
| "jval_error ops (JLabels ls) = None"

definition first_error :: "py_error option list \<Rightarrow> py_error option" where
  "first_error es = (case List.find (\<lambda>e. e \<noteq> None) es of None \<Rightarrow> None | Some e \<Rightarrow> e)"

definition dumps_error :: "'v py_ops \<Rightarrow> 'v expectation \<Rightarrow> py_error option" where
  "dumps_error ops res = first_error (map (\<lambda>kv. jval_error ops (snd kv)) (result res))"

definition build_report ::
  "'v world \<Rightarrow> 'v dataframe \<Rightarrow> string \<Rightarrow> nat \<Rightarrow> 'v expectation list \<Rightarrow> 'v report" where
  "build_report w df filepath n_bytes validation_results =
     (let total = length validation_results;
          ok = length (filter success validation_results);
          groups = group_expectations validation_results ([], [])
      in \<lparr>filename = basename filepath,
          timestamp = now w,
          total_expectations = total,
          successful = ok,
          failed = total - ok,
          success_rate = (if total > 0 then fmul (fdiv (real ok) (real total)) 100 else 0),
          rows = row_count df,
          n_columns = length (columns df),
          size_bytes = n_bytes,
          format_ext = lower (splitext_ext filepath),
          global_expectations = fst groups,
          column_expectations = snd groups\<rparr>)"

text \<open>
  The function against a file system. An exception leaves the function at the point
  where it is raised. Loading and the battery come before \<^verbatim>\<open>os.makedirs\<close>, so an
  exception of theirs leaves the file system as it was found. The report stage creates
  the folder, reads the file size while it builds the document, serialises the results
  of the table and then those of each column, and at last opens the report for writing:
  an exception of \<^verbatim>\<open>os.path.getsize\<close>, \<^verbatim>\<open>json.dumps\<close> or \<^verbatim>\<open>open\<close> leaves the
  folder behind and no report.
\<close>

definition validate_dataset_with_expectations ::
  "'v world \<Rightarrow> 'v py_ops \<Rightarrow> 'v filesystem \<Rightarrow> string \<Rightarrow> string
     \<Rightarrow> (py_error + 'v outcome) \<times> 'v filesystem" where
  "validate_dataset_with_expectations w ops fs filepath report_folder =
     (case load w filepath of
        Inl e \<Rightarrow> (Inl e, fs)
      | Inr df \<Rightarrow>
          (case battery ops df of
             Inl e \<Rightarrow> (Inl e, fs)
           | Inr validation_results \<Rightarrow>
               (case makedirs_error w report_folder of
                  Some e \<Rightarrow> (Inl e, fs)
                | None \<Rightarrow>
                    (let fs_dir = fs\<lparr>dirs := insert report_folder (dirs fs)\<rparr>;
                         report_path =
                           path_join report_folder (basename filepath @ ''_report.html'');
                         groups = group_expectations validation_results ([], [])
                     in case getsize w filepath of
                          Inl e \<Rightarrow> (Inl e, fs_dir)
                        | Inr n_bytes \<Rightarrow>
                            (case first_error
                                    (map (dumps_error ops)
                                         (fst groups @ concat (map snd (snd groups)))) of
                               Some e \<Rightarrow> (Inl e, fs_dir)
                             | None \<Rightarrow>
                                 (case open_error w report_path of
                                    Some e \<Rightarrow> (Inl e, fs_dir)
                                  | None \<Rightarrow>
                                      (Inr \<lparr>results = validation_results,
                                            report_path = report_path\<rparr>,
                                       fs_dir\<lparr>files := (files fs_dir)(report_path \<mapsto>
                                          build_report w df filepath n_bytes
                                            validation_results)\<rparr>)))))))"

section \<open>Vocabulary of the properties\<close>

text \<open>
  The results that concern one column, as the report groups them under
  \<^verbatim>\<open>column_expectations[col]\<close>.
\<close>

definition column_results :: "string \<Rightarrow> 'v expectation list \<Rightarrow> 'v expectation list" where
  "column_results col rs = filter (\<lambda>r. column r = Some col) rs"

text \<open>
  The class of a dtype is the branch of the \<^verbatim>\<open>if\<close>/\<^verbatim>\<open>elif\<close> chain it takes.
\<close>

datatype dtype_class = Numeric | String_like | Datetime | Other

definition classify :: "pd_dtype \<Rightarrow> dtype_class" where
  "classify d =
     (if is_numeric_dtype d then Numeric
      else if is_string_dtype d \<or> is_object d then String_like
      else if is_datetime64_any_dtype d then Datetime
      else Other)"

section \<open>Example inputs\<close>

text \<open>
  In the example tables a cell value is written as its text form, so \<^verbatim>\<open>astype(str)\<close>
  is the identity; the record of operations says what Python does with the values of the
  table. The first tables hold Python strings, which can be hashed and serialised. Their
  columns are of dtype \<^verbatim>\<open>object\<close>, so the float reductions are never called on them.
\<close>

definition text_ops :: "string py_ops" where
  "text_ops =
     \<lparr>astype_str = (\<lambda>s. s), series_min = (\<lambda>vs. 0), series_max = (\<lambda>vs. 0),
      series_mean = (\<lambda>vs. 0), series_median = (\<lambda>vs. 0),
      unhashable = (\<lambda>s. None), unserializable = (\<lambda>s. None)\<rparr>"

definition object_dtype :: pd_dtype where
  "object_dtype =
     \<lparr>dtype_str = ''object'', is_numeric_dtype = False, is_string_dtype = True,
      is_object = True, is_datetime64_any_dtype = False\<rparr>"

definition name_col :: "string series" where
  "name_col = \<lparr>label = ''name'', dtype = object_dtype, cells = [Some ''ann'', Some ''bob'']\<rparr>"

definition city_col :: "string series" where
  "city_col = \<lparr>label = ''city'', dtype = object_dtype, cells = [Some ''oslo'', Some ''oslo'']\<rparr>"

definition note_col :: "string series" where
  "note_col = \<lparr>label = ''note'', dtype = object_dtype, cells = [None, None]\<rparr>"

definition people :: "string dataframe" where
  "people = \<lparr>columns = [name_col, city_col, note_col], row_count = 2\<rparr>"

text \<open>A table with a repeated label.\<close>

definition twins :: "string dataframe" where
  "twins = \<lparr>columns = [name_col, name_col], row_count = 2\<rparr>"

text \<open>A CSV file that holds a header line and no data row.\<close>

definition id_col :: "string series" where
  "id_col = \<lparr>label = ''id'', dtype = object_dtype, cells = []\<rparr>"

definition header_only :: "string dataframe" where
  "header_only = \<lparr>columns = [id_col], row_count = 0\<rparr>"

text \<open>A text column within the limit of 255 characters, and the same with one value of 256.\<close>

definition short_col :: "string series" where
  "short_col =
     \<lparr>label = ''text'', dtype = object_dtype,
      cells = [Some ''ab'', None, Some (replicate 255 CHR ''x'')]\<rparr>"

definition long_col :: "string series" where
  "long_col =
     \<lparr>label = ''text'', dtype = object_dtype,
      cells = [Some ''ab'', None, Some (replicate 256 CHR ''x'')]\<rparr>"

definition short_text :: "string dataframe" where
  "short_text = \<lparr>columns = [short_col], row_count = 3\<rparr>"

definition long_text :: "string dataframe" where
  "long_text = \<lparr>columns = [long_col], row_count = 3\<rparr>"

text \<open>
  A column of dtype \<^verbatim>\<open>timedelta64[ns]\<close>, which passes none of the dtype tests. Its
  values are Timedelta objects: they can be hashed, and \<^verbatim>\<open>json.dumps\<close> refuses them.
\<close>

definition timedelta_ops :: "string py_ops" where
  "timedelta_ops =
     \<lparr>astype_str = (\<lambda>s. s), series_min = (\<lambda>vs. 0), series_max = (\<lambda>vs. 0),
      series_mean = (\<lambda>vs. 0), series_median = (\<lambda>vs. 0),
      unhashable = (\<lambda>s. None), unserializable = (\<lambda>s. Some ''Timedelta'')\<rparr>"

definition timedelta_dtype :: pd_dtype where
  "timedelta_dtype =
     \<lparr>dtype_str = ''timedelta64[ns]'', is_numeric_dtype = False, is_string_dtype = False,
      is_object = False, is_datetime64_any_dtype = False\<rparr>"

definition wait_col :: "string series" where
  "wait_col =
     \<lparr>label = ''wait'', dtype = timedelta_dtype,
      cells = [Some ''0 days 00:00:05'', None]\<rparr>"

definition waits :: "string dataframe" where
  "waits = \<lparr>columns = [wait_col], row_count = 2\<rparr>"

text \<open>
  Nested JSON: a column of dtype \<^verbatim>\<open>object\<close> whose values are lists, which cannot be
  hashed.
\<close>

definition list_ops :: "string py_ops" where
  "list_ops =
     \<lparr>astype_str = (\<lambda>s. s), series_min = (\<lambda>vs. 0), series_max = (\<lambda>vs. 0),
      series_mean = (\<lambda>vs. 0), series_median = (\<lambda>vs. 0),
      unhashable = (\<lambda>s. Some ''list''), unserializable = (\<lambda>s. None)\<rparr>"

definition tags_col :: "string series" where
  "tags_col =
     \<lparr>label = ''tags'', dtype = object_dtype, cells = [Some ''[1, 2]'', Some ''[3]'']\<rparr>"

definition nested :: "string dataframe" where
  "nested = \<lparr>columns = [tags_col], row_count = 2\<rparr>"

text \<open>
  A column of dtype \<^verbatim>\<open>float64\<close>. Its values are doubles. The minimum and the maximum
  are exact; the mean is the float sum of the values, added in their order as numpy does
  for a column of fewer than eight values, divided by their number; the median is the
  middle value, or the float mean of the two middle ones. The text of a float is not
  needed, a numeric column taking the numeric branch.
\<close>

definition float_mean :: "real list \<Rightarrow> real" where
  "float_mean vs = fdiv (foldl fadd 0 vs) (real (length vs))"

definition float_median :: "real list \<Rightarrow> real" where
  "float_median vs =
     (let s = sort vs; n = length s
      in if odd n then s ! (n div 2)
         else fdiv (fadd (s ! (n div 2 - 1)) (s ! (n div 2))) 2)"

definition float_ops :: "real py_ops" where
  "float_ops =
     \<lparr>astype_str = (\<lambda>x. []),
      series_min = (\<lambda>vs. Min (set vs)), series_max = (\<lambda>vs. Max (set vs)),
      series_mean = float_mean, series_median = float_median,
      unhashable = (\<lambda>x. None), unserializable = (\<lambda>x. None)\<rparr>"

definition float64_dtype :: pd_dtype where
  "float64_dtype =
     \<lparr>dtype_str = ''float64'', is_numeric_dtype = True, is_string_dtype = False,
      is_object = False, is_datetime64_any_dtype = False\<rparr>"

text \<open>The double nearest to 0.1, and a CSV file with the one column 0.1, 0.1, 0.1.\<close>

definition tenth :: real where
  "tenth = 3602879701896397 / 36028797018963968"

definition x_col :: "real series" where
  "x_col = \<lparr>label = ''x'', dtype = float64_dtype, cells = [Some tenth, Some tenth, Some tenth]\<rparr>"

definition tenths :: "real dataframe" where
  "tenths = \<lparr>columns = [x_col], row_count = 3\<rparr>"

text \<open>
  A world whose readers fail, and the world where every reader yields a given table at a
  given time. In both the operating system refuses only to create a folder of the empty
  name.
\<close>

definition broken_world :: "string world" where
  "broken_world =
     \<lparr>read_csv = (\<lambda>p. Inl ''No columns to parse from file''),
      read_excel = (\<lambda>p. Inl ''File is not a zip file''),
      read_json = (\<lambda>p. Inl ''Expected object or value''),
      now = ''2024-01-01 00:00:00'',
      getsize = (\<lambda>p. Inr 0),
      makedirs_error = (\<lambda>p. if p = [] then Some (OSError ''No such file or directory'')
                             else None),
      open_error = (\<lambda>p. None)\<rparr>"

definition table_world :: "string dataframe \<Rightarrow> string \<Rightarrow> string world" where
  "table_world df clock =
     \<lparr>read_csv = (\<lambda>p. Inr df),
      read_excel = (\<lambda>p. Inr df),
      read_json = (\<lambda>p. Inr df),
      now = clock,
      getsize = (\<lambda>p. Inr 64),
      makedirs_error = (\<lambda>p. if p = [] then Some (OSError ''No such file or directory'')
                             else None),
      open_error = (\<lambda>p. None)\<rparr>"

definition empty_fs :: "string filesystem" where
  "empty_fs = \<lparr>dirs = {}, files = Map.empty\<rparr>"


section \<open>Structure of the results\<close>

lemma column_checks_column:
  "r \<in> set (column_checks ops df c) \<Longrightarrow> column r = Some (label c)"
  by (auto simp: column_checks_def not_null_check_def numeric_checks_def string_checks_def
      datetime_checks_def categorical_check_def unique_check_def Let_def split: if_splits)

lemma column_pass_Inr:
  "column_pass ops df c = Inr rs \<Longrightarrow> rs = column_checks ops df c"
  by (auto simp: column_pass_def split: if_splits option.splits)

lemma column_pass_hashable:
  "nunique_error ops (dropna (cells c)) = None \<Longrightarrow>
   column_pass ops df c = Inr (column_checks ops df c)"
  by (simp add: column_pass_def)

lemma column_loop_Inr:
  "column_loop ops df ls acc = Inr rs \<Longrightarrow>
   \<exists>cs. rs = acc @ cs \<and> (\<forall>r\<in>set cs. \<exists>l\<in>set ls. column r = Some l)"
proof (induction ls arbitrary: acc)
  case Nil
  then show ?case by simp
next
  case (Cons l ls)
  from Cons.prems obtain c rs0 where g: "getitem df l = [c]"
    and p: "column_pass ops df c = Inr rs0"
    and rec: "column_loop ops df ls (acc @ rs0) = Inr rs"
    by (auto split: list.splits sum.splits)
  from p have rs0: "rs0 = column_checks ops df c" by (rule column_pass_Inr)
  have lc: "label c = l"
  proof -
    have "c \<in> set (getitem df l)" using g by simp
    then show ?thesis by (simp add: getitem_def)
  qed
  from Cons.IH [OF rec] obtain cs where
    cs: "rs = (acc @ rs0) @ cs"
        "\<forall>r\<in>set cs. \<exists>l\<in>set ls. column r = Some l" by blast
  have "\<forall>r\<in>set (rs0 @ cs). \<exists>l'\<in>set (l # ls). column r = Some l'"
    using cs(2) column_checks_column [of _ ops df c] lc rs0 by auto
  with cs(1) show ?case by (intro exI [of _ "rs0 @ cs"]) simp
qed

lemma filter_singleton:
  "distinct (map f xs) \<Longrightarrow> x \<in> set xs \<Longrightarrow> filter (\<lambda>c. f c = f x) xs = [x]"
proof (induction xs)
  case Nil
  then show ?case by simp
next
  case (Cons a xs)
  show ?case
  proof (cases "a = x")
    case True
    from Cons.prems True have "f x \<notin> f ` set xs" by simp
    then have "filter (\<lambda>c. f c = f x) xs = []"
      unfolding filter_empty_conv by (metis imageI)
    with True show ?thesis by simp
  next
    case False
    with Cons.prems have "x \<in> set xs" "f a \<noteq> f x" by auto
    with Cons show ?thesis by simp
  qed
qed

lemma column_loop_total:
  "\<forall>c\<in>set cs. getitem df (label c) = [c] \<and> nunique_error ops (dropna (cells c)) = None \<Longrightarrow>
   column_loop ops df (map label cs) acc = Inr (acc @ concat (map (column_checks ops df) cs))"
proof (induction cs arbitrary: acc)
  case Nil
  then show ?case by simp
next
  case (Cons c cs)
  from Cons.prems have g: "getitem df (label c) = [c]"
    and p: "column_pass ops df c = Inr (column_checks ops df c)"
    by (simp_all add: column_pass_hashable)
  from Cons.prems have "\<forall>c\<in>set cs. getitem df (label c) = [c]
      \<and> nunique_error ops (dropna (cells c)) = None" by simp
  from Cons.IH [OF this, of "acc @ column_checks ops df c"] g p show ?case by simp
qed

lemma column_loop_closed:
  "column_loop ops df (map label cs) acc = Inr rs \<Longrightarrow>
   \<forall>c\<in>set cs. getitem df (label c) = [c] \<Longrightarrow>
   rs = acc @ concat (map (column_checks ops df) cs)"
proof (induction cs arbitrary: acc)
  case Nil
  then show ?case by simp
next
  case (Cons c cs)
  from Cons.prems(2) have g: "getitem df (label c) = [c]" by simp
  with Cons.prems(1) obtain rs0 where p: "column_pass ops df c = Inr rs0"
    and rec: "column_loop ops df (map label cs) (acc @ rs0) = Inr rs"
    by (auto split: sum.splits)
  from p have "rs0 = column_checks ops df c" by (rule column_pass_Inr)
  with Cons.IH [OF rec] Cons.prems(2) show ?case by simp
qed

text \<open>
  The battery returns on the tables whose labels are distinct and whose non-null values
  can all be hashed, as far as the operations passed to it return.
\<close>

lemma battery_distinct:
  assumes "distinct (map label (columns df))"
    and "\<forall>c\<in>set (columns df). nunique_error ops (dropna (cells c)) = None"
  shows "battery ops df
    = Inr (table_checks df @ concat (map (column_checks ops df) (columns df)))"
  unfolding battery_def
  using assms by (intro column_loop_total) (simp add: getitem_def filter_singleton)

lemma column_loop_distinct:
  "column_loop ops df ls acc = Inr rs \<Longrightarrow> l \<in> set ls \<Longrightarrow> \<exists>c. getitem df l = [c]"
  by (induction ls arbitrary: acc) (auto split: list.splits sum.splits)

lemma distinct_by_count:
  "\<forall>y\<in>set ys. length (filter (\<lambda>z. z = y) ys) = 1 \<Longrightarrow> distinct ys"
proof (induction ys)
  case Nil
  then show ?case by simp
next
  case (Cons a ys)
  from Cons.prems have "filter (\<lambda>z. z = a) ys = []" by simp
  then have a: "a \<notin> set ys" unfolding filter_empty_conv by blast
  have "\<forall>y\<in>set ys. length (filter (\<lambda>z. z = y) ys) = 1"
  proof
    fix y assume y: "y \<in> set ys"
    with a have "a \<noteq> y" by auto
    with Cons.prems y show "length (filter (\<lambda>z. z = y) ys) = 1" by auto
  qed
  with Cons.IH a show ?case by simp
qed

lemma battery_Inr_distinct:
  assumes "battery ops df = Inr rs"
  shows "distinct (map label (columns df))"
proof (rule distinct_by_count, rule ballI)
  fix l assume "l \<in> set (map label (columns df))"
  from column_loop_distinct [OF assms [unfolded battery_def] this]
  obtain c where "filter (\<lambda>c. label c = l) (columns df) = [c]" by (auto simp: getitem_def)
  then show "length (filter (\<lambda>z. z = l) (map label (columns df))) = 1"
    by (simp add: filter_map comp_def)
qed

lemma battery_Inr_closed:
  assumes "battery ops df = Inr rs"
  shows "rs = table_checks df @ concat (map (column_checks ops df) (columns df))"
proof -
  have "distinct (map label (columns df))" using assms by (rule battery_Inr_distinct)
  then have "\<forall>c\<in>set (columns df). getitem df (label c) = [c]"
    by (simp add: getitem_def filter_singleton)
  with assms [unfolded battery_def] show ?thesis by (rule column_loop_closed)
qed

lemma column_loop_error:
  "column_loop ops df ls acc = Inl e \<Longrightarrow> \<exists>m. e = TypeError m"
  by (induction ls arbitrary: acc)
     (auto simp: column_pass_def nunique_error_def split: list.splits sum.splits if_splits option.splits)

lemma battery_duplicate_labels:
  assumes "\<not> distinct (map label (columns df))"
  shows "\<exists>m. battery ops df = Inl (TypeError m)"
proof (cases "battery ops df")
  case (Inl e)
  then show ?thesis using column_loop_error [of ops df] by (simp add: battery_def)
next
  case (Inr rs)
  with assms show ?thesis using battery_Inr_distinct by blast
qed

lemma table_checks_column: "r \<in> set (table_checks df) \<Longrightarrow> column r = None"
  by (auto simp: table_checks_def row_count_check_def columns_match_check_def
      columns_unique_check_def Let_def)

lemma column_results_other:
  "label c' \<noteq> l \<Longrightarrow> column_results l (column_checks ops df c') = []"
  unfolding column_results_def filter_empty_conv
  using column_checks_column [of _ ops df c'] by auto

lemma column_results_same:
  "column_results (label c) (column_checks ops df c) = column_checks ops df c"
  unfolding column_results_def filter_id_conv
  using column_checks_column [of _ ops df c] by auto

lemma column_results_concat:
  "distinct (map label cs) \<Longrightarrow> c \<in> set cs \<Longrightarrow>
   column_results (label c) (concat (map (column_checks ops df) cs)) = column_checks ops df c"
proof (induction cs)
  case Nil
  then show ?case by simp
next
  case (Cons a cs)
  have app: "\<And>xs ys. column_results (label c) (xs @ ys)
     = column_results (label c) xs @ column_results (label c) ys"
    by (simp add: column_results_def)
  show ?case
  proof (cases "a = c")
    case True
    from Cons.prems True have "label c \<notin> label ` set cs" by simp
    then have "\<forall>c'\<in>set cs. label c' \<noteq> label c" by (metis imageI)
    then have "column_results (label c) (concat (map (column_checks ops df) cs)) = []"
      unfolding column_results_def filter_empty_conv
      using column_checks_column by fastforce
    with True show ?thesis by (simp add: app column_results_same)
  next
    case False
    with Cons.prems have "c \<in> set cs" "label a \<noteq> label c" by auto
    with Cons show ?thesis by (simp add: app column_results_other)
  qed
qed

lemma battery_column_results:
  assumes "battery ops df = Inr rs" and "c \<in> set (columns df)"
  shows "column_results (label c) rs = column_checks ops df c"
proof -
  have d: "distinct (map label (columns df))" using assms(1) by (rule battery_Inr_distinct)
  have rs: "rs = table_checks df @ concat (map (column_checks ops df) (columns df))"
    using assms(1) by (rule battery_Inr_closed)
  have "column_results (label c) (table_checks df) = []"
    unfolding column_results_def filter_empty_conv using table_checks_column by fastforce
  with rs column_results_concat [OF d assms(2)] show ?thesis
    by (simp add: column_results_def)
qed

lemma text_ops_hashable: "nunique_error text_ops vs = None"
  by (simp add: nunique_error_def text_ops_def find_None_iff split: option.splits)

lemma people_battery:
  "battery text_ops people
     = Inr (table_checks people @ concat (map (column_checks text_ops people) (columns people)))"
  by (rule battery_distinct)
     (simp_all add: people_def name_col_def city_col_def note_col_def text_ops_hashable)

text \<open>
  With a repeated label the third record fails and the column loop raises; with a value
  that cannot be hashed the loop raises as well.
\<close>

lemma twins_raise:
  "\<not> success (table_checks twins ! 2)
   \<and> battery text_ops twins = Inl (TypeError ''cannot convert the series to <class 'int'>'')"
  by (simp add: table_checks_def columns_unique_check_def twins_def name_col_def battery_def
      getitem_def)

lemma nested_raises:
  "battery list_ops nested
     = Inl (TypeError (''unhashable type: '' @ [CHR 0x27] @ ''list'' @ [CHR 0x27]))"
  by (simp add: battery_def nested_def tags_col_def getitem_def column_pass_def
      nunique_error_def list_ops_def)

text \<open>
  \<^bold>\<open>C1.\<close> The table-level part of the battery appends exactly three results, of the
  kinds row count (\<^verbatim>\<open>row_count_positive\<close>), column set (\<^verbatim>\<open>columns_present\<close>) and
  unique columns (\<^verbatim>\<open>columns_unique\<close>) in this order, all of table scope. The first
  passes iff the table has at least one row and records the row count as observed value,
  the second always passes, the third passes iff no two columns share a label. Whenever
  the battery returns, its first three results are these and every later result is scoped
  to a column; the labels of such a table are distinct, a repeated label making the column
  loop raise, so in a returned list the third result passes.
\<close>

theorem table_level_results:
  "length (table_checks df) = 3
   \<and> map expectation_type (table_checks df) =
       [''expect_table_row_count_to_be_greater_than'',
        ''expect_table_columns_to_match_set'',
        ''expect_table_columns_to_be_unique'']
   \<and> map column (table_checks df) = [None, None, None]
   \<and> success (table_checks df ! 0) = (0 < row_count df)
   \<and> map_of (result (table_checks df ! 0)) ''observed_value''
       = Some (JInt (int (row_count df)))
   \<and> success (table_checks df ! 1)
   \<and> success (table_checks df ! 2) = distinct (map label (columns df))
   \<and> (\<forall>rs. battery ops df = Inr rs \<longrightarrow>
         take 3 rs = table_checks df
         \<and> (\<forall>r\<in>set (drop 3 rs). column r \<noteq> None)
         \<and> success (rs ! 0) = (0 < row_count df)
         \<and> map_of (result (rs ! 0)) ''observed_value'' = Some (JInt (int (row_count df)))
         \<and> success (rs ! 1)
         \<and> success (rs ! 2) \<and> distinct (map label (columns df)))"
proof -
  have len: "length (table_checks df) = 3" by (simp add: table_checks_def)
  have kinds: "map expectation_type (table_checks df) =
       [''expect_table_row_count_to_be_greater_than'',
        ''expect_table_columns_to_match_set'',
        ''expect_table_columns_to_be_unique'']"
    by (simp add: table_checks_def row_count_check_def columns_match_check_def
        columns_unique_check_def Let_def)
  have scopes: "map column (table_checks df) = [None, None, None]"
    by (simp add: table_checks_def row_count_check_def columns_match_check_def
        columns_unique_check_def Let_def)
  have rows: "success (table_checks df ! 0) = (0 < row_count df)"
    "map_of (result (table_checks df ! 0)) ''observed_value''
       = Some (JInt (int (row_count df)))"
    by (simp_all add: table_checks_def row_count_check_def Let_def)
  have present: "success (table_checks df ! 1)"
    by (simp add: table_checks_def columns_match_check_def Let_def)
  have uniq: "success (table_checks df ! 2) = distinct (map label (columns df))"
  proof -
    have "success (table_checks df ! 2)
        = (length (map label (columns df)) = length (remdups (map label (columns df))))"
      by (simp add: table_checks_def columns_unique_check_def Let_def)
    also have "\<dots> = distinct (map label (columns df))"
      by (metis length_remdups_eq remdups_id_iff_distinct)
    finally show ?thesis .
  qed
  have returned: "\<forall>rs. battery ops df = Inr rs \<longrightarrow>
         take 3 rs = table_checks df
         \<and> (\<forall>r\<in>set (drop 3 rs). column r \<noteq> None)
         \<and> success (rs ! 0) = (0 < row_count df)
         \<and> map_of (result (rs ! 0)) ''observed_value'' = Some (JInt (int (row_count df)))
         \<and> success (rs ! 1)
         \<and> success (rs ! 2) \<and> distinct (map label (columns df))"
  proof (intro allI impI)
    fix rs assume b: "battery ops df = Inr rs"
    from column_loop_Inr [OF this [unfolded battery_def]] obtain cs where
      cs: "rs = table_checks df @ cs"
          "\<forall>r\<in>set cs. \<exists>l\<in>set (map label (columns df)). column r = Some l" by blast
    have d: "distinct (map label (columns df))" using b by (rule battery_Inr_distinct)
    from cs(1) len have nth: "rs ! 0 = table_checks df ! 0" "rs ! 1 = table_checks df ! 1"
      "rs ! 2 = table_checks df ! 2"
      by (simp_all add: nth_append)
    from cs len have "take 3 rs = table_checks df" "\<forall>r\<in>set (drop 3 rs). column r \<noteq> None"
      by auto
    with nth rows present uniq d
    show "take 3 rs = table_checks df
         \<and> (\<forall>r\<in>set (drop 3 rs). column r \<noteq> None)
         \<and> success (rs ! 0) = (0 < row_count df)
         \<and> map_of (result (rs ! 0)) ''observed_value'' = Some (JInt (int (row_count df)))
         \<and> success (rs ! 1)
         \<and> success (rs ! 2) \<and> distinct (map label (columns df))"
      by simp
  qed
  from len kinds scopes rows present uniq returned show ?thesis by blast
qed

text \<open>The table of people: its labels are distinct and it has two rows.\<close>

theorem table_level_results_witness:
  "battery text_ops people
       = Inr (table_checks people @ concat (map (column_checks text_ops people) (columns people)))
   \<and> take 3 (table_checks people @ concat (map (column_checks text_ops people) (columns people)))
       = table_checks people
   \<and> success ((table_checks people @ concat (map (column_checks text_ops people) (columns people))) ! 0)
   \<and> success ((table_checks people @ concat (map (column_checks text_ops people) (columns people))) ! 2)
   \<and> distinct (map label (columns people))
   \<and> column (last (table_checks people
                     @ concat (map (column_checks text_ops people) (columns people)))) \<noteq> None"
proof -
  let ?rs = "table_checks people @ concat (map (column_checks text_ops people) (columns people))"
  have r: "0 < row_count people" by (simp add: people_def)
  from table_level_results [of people text_ops] people_battery
  have t: "take 3 ?rs = table_checks people" "\<forall>r\<in>set (drop 3 ?rs). column r \<noteq> None"
    "success (?rs ! 0) = (0 < row_count people)" "success (?rs ! 2)"
    "distinct (map label (columns people))"
    by blast+
  have "last ?rs = not_null_check people note_col"
    by (simp add: people_def column_checks_def note_col_def)
  moreover have "last ?rs \<in> set (drop 3 ?rs)"
    by (simp add: table_checks_def people_def column_checks_def note_col_def)
  ultimately have "column (last ?rs) \<noteq> None" using t(2) by blast
  with t r people_battery show ?thesis by simp
qed

section \<open>Kinds of the column results\<close>

lemma nunique_Nil_iff: "nunique vs = 0 \<longleftrightarrow> vs = []"
  by (simp add: nunique_def)

lemma length_unique: "length (unique vs) = nunique vs"
  by (simp add: unique_def nunique_def length_remdups_card_conv)

lemma set_unique: "set (unique vs) = set vs"
  by (simp add: unique_def)

lemma distinct_unique: "distinct (unique vs)"
  by (simp add: unique_def)


lemma categorical_check_many:
  "\<not> (0 < nunique (dropna (cells c)) \<and> nunique (dropna (cells c)) < 30) \<Longrightarrow> categorical_check c = []"
  by (simp add: categorical_check_def Let_def)

lemma numeric_checks_kinds:
  "map expectation_type (numeric_checks ops df c) =
     [''expect_column_values_to_be_in_type_list'', ''expect_column_values_to_be_between'',
      ''expect_column_mean_to_be_between'', ''expect_column_median_to_be_between'']
     @ (if nunique (dropna (cells c)) = row_count df
        then [''expect_column_values_to_be_unique''] else [])"
  by (simp add: numeric_checks_def unique_check_def Let_def)

lemma string_checks_kinds:
  "map expectation_type (string_checks ops df c) =
     [''expect_column_values_to_be_in_type_list'',
      ''expect_column_value_lengths_to_be_between'']
     @ (if nunique (dropna (cells c)) = row_count df
        then [''expect_column_values_to_be_unique''] else [])"
  by (simp add: string_checks_def unique_check_def Let_def)

lemma categorical_check_kinds:
  "map expectation_type (categorical_check c) =
     (if 0 < nunique (dropna (cells c)) \<and> nunique (dropna (cells c)) < 30
      then [''expect_column_values_to_be_in_set''] else [])"
  by (simp add: categorical_check_def Let_def)

lemma column_checks_kinds:
  "map expectation_type (column_checks ops df c) =
     (if dropna (cells c) = [] then [''expect_column_values_to_not_be_null'']
      else ''expect_column_values_to_not_be_null''
           # (case classify (dtype c) of
                Numeric \<Rightarrow>
                  [''expect_column_values_to_be_in_type_list'',
                   ''expect_column_values_to_be_between'',
                   ''expect_column_mean_to_be_between'',
                   ''expect_column_median_to_be_between'']
                  @ (if nunique (dropna (cells c)) = row_count df
                     then [''expect_column_values_to_be_unique''] else [])
              | String_like \<Rightarrow>
                  [''expect_column_values_to_be_in_type_list'',
                   ''expect_column_value_lengths_to_be_between'']
                  @ (if nunique (dropna (cells c)) = row_count df
                     then [''expect_column_values_to_be_unique''] else [])
              | Datetime \<Rightarrow> [''expect_column_values_to_be_in_type_list'']
              | Other \<Rightarrow> [])
           @ (if nunique (dropna (cells c)) < 30
              then [''expect_column_values_to_be_in_set''] else []))"
proof (cases "dropna (cells c) = []")
  case True
  then show ?thesis by (simp add: column_checks_def not_null_check_def)
next
  case False
  then have pos: "0 < nunique (dropna (cells c))" by (simp add: nunique_def)
  have nn: "expectation_type (not_null_check df c) = ''expect_column_values_to_not_be_null''"
    by (simp add: not_null_check_def)
  have dt: "map expectation_type (datetime_checks c) = [''expect_column_values_to_be_in_type_list'']"
    by (simp add: datetime_checks_def)
  from False pos show ?thesis
    unfolding column_checks_def classify_def
    by (simp add: nn dt numeric_checks_kinds string_checks_kinds categorical_check_kinds)
qed

section \<open>Column-level properties\<close>



text \<open>
  \<^bold>\<open>C10.\<close> For every column that takes none of the three dtype branches and holds a
  non-null value, the results are the null check followed by the set-membership check,
  the latter exactly when the non-null values count between 1 and 29 distinct ones; no
  type check is among them.
\<close>

theorem other_class_results:
  assumes "battery ops df = Inr rs" and "c \<in> set (columns df)"
    and "classify (dtype c) = Other" and "dropna (cells c) \<noteq> []"
  shows "column_results (label c) rs = not_null_check df c # categorical_check c
    \<and> map expectation_type (column_results (label c) rs)
        = (if 1 \<le> nunique (dropna (cells c)) \<and> nunique (dropna (cells c)) \<le> 29
           then [''expect_column_values_to_not_be_null'', ''expect_column_values_to_be_in_set'']
           else [''expect_column_values_to_not_be_null''])
    \<and> ''expect_column_values_to_be_in_type_list''
        \<notin> set (map expectation_type (column_results (label c) rs))"
proof -
  have cr: "column_results (label c) rs = column_checks ops df c"
    using assms(1,2) by (rule battery_column_results)
  from assms(3) have d: "\<not> is_numeric_dtype (dtype c)" "\<not> is_string_dtype (dtype c)"
    "\<not> is_object (dtype c)" "\<not> is_datetime64_any_dtype (dtype c)"
    by (simp_all add: classify_def split: if_splits)
  from assms(4) have pos: "1 \<le> nunique (dropna (cells c))" by (simp add: nunique_def Suc_le_eq)
  have 1: "column_checks ops df c = not_null_check df c # categorical_check c"
    using d assms(4) by (simp add: column_checks_def)
  have 2: "map expectation_type (column_checks ops df c)
        = (if 1 \<le> nunique (dropna (cells c)) \<and> nunique (dropna (cells c)) \<le> 29
           then [''expect_column_values_to_not_be_null'', ''expect_column_values_to_be_in_set'']
           else [''expect_column_values_to_not_be_null''])"
    using assms(3,4) pos by (auto simp: column_checks_kinds)
  from 1 2 show ?thesis unfolding cr by (simp split: if_splits)
qed

text \<open>The column \<open>wait\<close> of durations is of dtype \<^verbatim>\<open>timedelta64[ns]\<close>.\<close>

theorem other_class_results_witness:
  "battery timedelta_ops waits = Inr (table_checks waits @ column_checks timedelta_ops waits wait_col)
   \<and> wait_col \<in> set (columns waits)
   \<and> classify (dtype wait_col) = Other \<and> dropna (cells wait_col) \<noteq> []
   \<and> map expectation_type (column_results ''wait''
        (table_checks waits @ column_checks timedelta_ops waits wait_col))
      = [''expect_column_values_to_not_be_null'', ''expect_column_values_to_be_in_set'']"
proof -
  have h: "nunique_error timedelta_ops vs = None" for vs
    by (simp add: nunique_error_def timedelta_ops_def find_None_iff split: option.splits)
  have b: "battery timedelta_ops waits
      = Inr (table_checks waits @ column_checks timedelta_ops waits wait_col)"
    using battery_distinct [of waits timedelta_ops] by (simp add: waits_def h)
  have m: "wait_col \<in> set (columns waits)" by (simp add: waits_def)
  have k: "classify (dtype wait_col) = Other"
    by (simp add: wait_col_def timedelta_dtype_def classify_def)
  have ne: "dropna (cells wait_col) \<noteq> []" by (simp add: wait_col_def)
  have n: "nunique (dropna (cells wait_col)) = 1" by (simp add: wait_col_def nunique_def)
  have l: "label wait_col = ''wait''" by (simp add: wait_col_def)
  from other_class_results [OF b m k ne]
  have "map expectation_type (column_results (label wait_col)
        (table_checks waits @ column_checks timedelta_ops waits wait_col))
      = (if 1 \<le> nunique (dropna (cells wait_col)) \<and> nunique (dropna (cells wait_col)) \<le> 29
         then [''expect_column_values_to_not_be_null'', ''expect_column_values_to_be_in_set'']
         else [''expect_column_values_to_not_be_null''])"
    by blast
  with n l have "map expectation_type (column_results ''wait''
        (table_checks waits @ column_checks timedelta_ops waits wait_col))
      = [''expect_column_values_to_not_be_null'', ''expect_column_values_to_be_in_set'']"
    by simp
  with b m k ne show ?thesis by blast
qed

lemma string_checks_lengths:
  "string_checks ops df c ! 1 =
     \<lparr>expectation_type = ''expect_column_value_lengths_to_be_between'',
      success = (Max (set (map (\<lambda>v. length (astype_str ops v)) (dropna (cells c)))) \<le> 255),
      column = Some (label c),
      result = [(''observed_value'',
                 JFmt [Lit ''min: '',
                       IntArg (int (Min (set (map (\<lambda>v. length (astype_str ops v))
                                                (dropna (cells c)))))),
                       Lit '', max: '',
                       IntArg (int (Max (set (map (\<lambda>v. length (astype_str ops v))
                                                (dropna (cells c))))))]),
                (''details'',
                 JStr (if Max (set (map (\<lambda>v. length (astype_str ops v)) (dropna (cells c))))
                          \<le> 255
                       then ''String lengths within acceptable range''
                       else ''Some strings exceed 255 chars''))]\<rparr>"
  by (simp add: string_checks_def Let_def)

text \<open>
  \<^bold>\<open>C5.\<close> For every column that takes the string branch and holds a non-null value,
  the third result of the column is the one length check (\<^verbatim>\<open>value_length_range\<close>). It
  passes iff the longest text form of a non-null value has at most 255 characters, that
  is iff every one has, and its observed value records the shortest and the longest
  length.
\<close>

theorem value_length_range_check:
  assumes "battery ops df = Inr rs" and "c \<in> set (columns df)"
    and "classify (dtype c) = String_like" and "dropna (cells c) \<noteq> []"
  shows "expectation_type (column_results (label c) rs ! 2)
           = ''expect_column_value_lengths_to_be_between''
    \<and> count_list (map expectation_type (column_results (label c) rs))
         ''expect_column_value_lengths_to_be_between'' = 1
    \<and> success (column_results (label c) rs ! 2)
        = (Max (set (map (\<lambda>v. length (astype_str ops v)) (dropna (cells c)))) \<le> 255)
    \<and> success (column_results (label c) rs ! 2)
        = (\<forall>v\<in>set (dropna (cells c)). length (astype_str ops v) \<le> 255)
    \<and> map_of (result (column_results (label c) rs ! 2)) ''observed_value''
        = Some (JFmt [Lit ''min: '',
                      IntArg (int (Min (set (map (\<lambda>v. length (astype_str ops v))
                                               (dropna (cells c)))))),
                      Lit '', max: '',
                      IntArg (int (Max (set (map (\<lambda>v. length (astype_str ops v))
                                               (dropna (cells c))))))])"
proof -
  have cr: "column_results (label c) rs = column_checks ops df c"
    using assms(1,2) by (rule battery_column_results)
  from assms(3) have d: "\<not> is_numeric_dtype (dtype c)"
    "is_string_dtype (dtype c) \<or> is_object (dtype c)"
    by (simp_all add: classify_def split: if_splits)
  have len: "2 \<le> length (string_checks ops df c)"
    by (simp add: string_checks_def Let_def)
  have cc: "column_checks ops df c
      = not_null_check df c # string_checks ops df c @ categorical_check c"
    using d assms(4) by (auto simp: column_checks_def)
  have nth: "column_checks ops df c ! 2 = string_checks ops df c ! 1"
    unfolding cc using len by (simp add: nth_append numeral_2_eq_2)
  have cnt: "count_list (map expectation_type (column_checks ops df c))
         ''expect_column_value_lengths_to_be_between'' = 1"
    using assms(3,4) by (simp add: column_checks_kinds)
  have mx: "(Max (set (map (\<lambda>v. length (astype_str ops v)) (dropna (cells c)))) \<le> 255)
      = (\<forall>v\<in>set (dropna (cells c)). length (astype_str ops v) \<le> 255)"
    using assms(4) by (simp add: Max_le_iff)
  show ?thesis
    unfolding cr nth string_checks_lengths using cnt mx by simp
qed

text \<open>
  A column whose values have 2 and 255 characters passes; with the second value replaced
  by one of 256 characters the check fails and records 256 as the maximum.
\<close>

theorem value_length_range_check_witness:
  "battery text_ops short_text = Inr (table_checks short_text @ column_checks text_ops short_text short_col)
   \<and> battery text_ops long_text = Inr (table_checks long_text @ column_checks text_ops long_text long_col)
   \<and> classify (dtype short_col) = String_like \<and> dropna (cells short_col) \<noteq> []
   \<and> classify (dtype long_col) = String_like \<and> dropna (cells long_col) \<noteq> []
   \<and> success (column_results ''text''
        (table_checks short_text @ column_checks text_ops short_text short_col) ! 2)
   \<and> \<not> success (column_results ''text''
        (table_checks long_text @ column_checks text_ops long_text long_col) ! 2)
   \<and> map_of (result (column_results ''text''
        (table_checks long_text @ column_checks text_ops long_text long_col) ! 2)) ''observed_value''
        = Some (JFmt [Lit ''min: '', IntArg 2, Lit '', max: '', IntArg 256])"
proof -
  have bs: "battery text_ops short_text
      = Inr (table_checks short_text @ column_checks text_ops short_text short_col)"
    using battery_distinct [of short_text text_ops]
    by (simp add: short_text_def text_ops_hashable)
  have bl: "battery text_ops long_text
      = Inr (table_checks long_text @ column_checks text_ops long_text long_col)"
    using battery_distinct [of long_text text_ops]
    by (simp add: long_text_def text_ops_hashable)
  have ms: "short_col \<in> set (columns short_text)" by (simp add: short_text_def)
  have ml: "long_col \<in> set (columns long_text)" by (simp add: long_text_def)
  have ks: "classify (dtype short_col) = String_like"
    by (simp add: short_col_def object_dtype_def classify_def)
  have kl: "classify (dtype long_col) = String_like"
    by (simp add: long_col_def object_dtype_def classify_def)
  have ns: "dropna (cells short_col) \<noteq> []" by (simp add: short_col_def)
  have nl: "dropna (cells long_col) \<noteq> []" by (simp add: long_col_def)
  have ls: "map (\<lambda>v. length (astype_str text_ops v)) (dropna (cells short_col)) = [2, 255]"
    by (simp add: short_col_def text_ops_def)
  have ll: "map (\<lambda>v. length (astype_str text_ops v)) (dropna (cells long_col)) = [2, 256]"
    by (simp add: long_col_def text_ops_def)
  have lab: "label short_col = ''text''" "label long_col = ''text''"
    by (simp_all add: short_col_def long_col_def)
  from value_length_range_check [OF bs ms ks ns]
  have s: "success (column_results ''text''
        (table_checks short_text @ column_checks text_ops short_text short_col) ! 2)"
    unfolding ls lab by simp
  from value_length_range_check [OF bl ml kl nl]
  have l: "\<not> success (column_results ''text''
        (table_checks long_text @ column_checks text_ops long_text long_col) ! 2)"
    "map_of (result (column_results ''text''
        (table_checks long_text @ column_checks text_ops long_text long_col) ! 2)) ''observed_value''
        = Some (JFmt [Lit ''min: '', IntArg 2, Lit '', max: '', IntArg 256])"
    unfolding ll lab by simp_all
  from bs bl ks kl ns nl s l show ?thesis by blast
qed

lemma round_half_even_of_int: "round_half_even (of_int k) = k"
  by (simp add: round_half_even_def)

lemma double_round_1: "double_round 1 = 1"
  by code_simp

lemma double_round_100: "double_round 100 = 100"
  by code_simp

lemma double_round_10000: "double_round 10000 = 10000"
  by code_simp

text \<open>
  The null percent is computed in floats: 23 nulls in 160 rows give 14.374999999999998,
  which rounds to 14.37, where the exact 14.375 would round to 14.38.
\<close>

lemma percent_23_of_160:
  "np_round (fmul (fdiv (real 23) (real 160)) 100) 2 = double_round (1437 / 100)"
  by code_simp

text \<open>A column of nulls only: \<open>n / n\<close> is 1, times 100 is 100, and 100 rounds to itself.\<close>

lemma percent_all: "0 < n \<Longrightarrow> np_round (fmul (fdiv (real n) (real n)) 100) 2 = 100"
proof -
  assume "0 < n"
  then have "fdiv (real n) (real n) = 1" by (simp add: fdiv_def double_round_1)
  moreover have "fmul 1 100 = 100" by (simp add: fmul_def double_round_100)
  moreover have "fmul 100 (10 ^ 2) = 10000" by (simp add: fmul_def double_round_10000)
  moreover have "round_half_even 10000 = 10000"
    using round_half_even_of_int [of 10000] by simp
  moreover have "fdiv 10000 (10 ^ 2) = 100" by (simp add: fdiv_def double_round_100)
  ultimately show ?thesis by (simp add: np_round_def)
qed

lemma dropna_all_null: "list_all isnull vs \<Longrightarrow> dropna vs = []"
  by (induction vs rule: dropna.induct) (simp_all add: isnull_def)

lemma null_count_all_null: "list_all isnull (cells c) \<Longrightarrow> null_count c = length (cells c)"
  by (simp add: null_count_def list_all_iff)

text \<open>
  \<^bold>\<open>C4\<close> as stated fails on a table without rows: every cell of its column is
  null, there being none, yet the null check passes and the null percent is the integer
  0 of the \<^verbatim>\<open>else\<close> branch.
\<close>

theorem all_null_column_empty_table_counterexample:
  "list_all isnull (cells id_col)
   \<and> battery text_ops header_only
       = Inr (table_checks header_only @ [not_null_check header_only id_col])
   \<and> success (not_null_check header_only id_col)
   \<and> map_of (result (not_null_check header_only id_col)) ''missing_percent'' = Some (JInt 0)"
proof -
  have "battery text_ops header_only
      = Inr (table_checks header_only @ column_checks text_ops header_only id_col)"
    using battery_distinct [of header_only text_ops]
    by (simp add: header_only_def text_ops_hashable)
  moreover have "column_checks text_ops header_only id_col = [not_null_check header_only id_col]"
    by (simp add: column_checks_def id_col_def)
  ultimately show ?thesis
    by (simp add: not_null_check_def null_count_def id_col_def header_only_def)
qed

text \<open>
  \<^bold>\<open>C4\<close>, amended. In a table with at least one row, for every column whose cells
  are all null, the null check fails with a null count equal to the row count and a null
  percent of 100.00, and it is the only result of the column.
\<close>

theorem all_null_column:
  assumes "battery ops df = Inr rs" and "c \<in> set (columns df)"
    and "wf_dataframe df" and "0 < row_count df" and "list_all isnull (cells c)"
  shows "column_results (label c) rs = [not_null_check df c]
    \<and> expectation_type (not_null_check df c) = ''expect_column_values_to_not_be_null''
    \<and> \<not> success (not_null_check df c)
    \<and> map_of (result (not_null_check df c)) ''missing_count'' = Some (JInt (int (row_count df)))
    \<and> map_of (result (not_null_check df c)) ''missing_percent'' = Some (JFloat 100)"
proof -
  have cr: "column_results (label c) rs = column_checks ops df c"
    using assms(1,2) by (rule battery_column_results)
  from assms(2,3) have len: "length (cells c) = row_count df"
    by (simp add: wf_dataframe_def list_all_iff)
  with assms(5) have nc: "null_count c = row_count df"
    by (simp add: null_count_all_null)
  have "column_checks ops df c = [not_null_check df c]"
    using assms(5) by (simp add: column_checks_def dropna_all_null)
  then show ?thesis
    unfolding cr using assms(4) by (simp add: not_null_check_def nc percent_all)
qed

text \<open>The column \<open>note\<close> of the table of people holds two null cells.\<close>

theorem all_null_column_witness:
  "battery text_ops people
     = Inr (table_checks people @ concat (map (column_checks text_ops people) (columns people)))
   \<and> note_col \<in> set (columns people) \<and> wf_dataframe people \<and> 0 < row_count people
   \<and> list_all isnull (cells note_col)
   \<and> column_results ''note''
        (table_checks people @ concat (map (column_checks text_ops people) (columns people)))
       = [not_null_check people note_col]
   \<and> \<not> success (not_null_check people note_col)
   \<and> map_of (result (not_null_check people note_col)) ''missing_count'' = Some (JInt 2)"
proof -
  have m: "note_col \<in> set (columns people)" by (simp add: people_def)
  have w: "wf_dataframe people"
    by (simp add: wf_dataframe_def people_def name_col_def city_col_def note_col_def)
  have r: "0 < row_count people" "int (row_count people) = 2" by (simp_all add: people_def)
  have a: "list_all isnull (cells note_col)" by (simp add: note_col_def isnull_def)
  have l: "label note_col = ''note''" by (simp add: note_col_def)
  from all_null_column [OF people_battery m w r(1) a] people_battery m w r a l
  show ?thesis by simp
qed

text \<open>
  \<^bold>\<open>C7\<close> as stated fails in its second half: the columns \<open>name\<close> and \<open>city\<close>
  of the table of people have the same dtype, and only the first, whose two values
  differ, gets the uniqueness check.
\<close>

theorem kinds_not_by_dtype_alone_counterexample:
  "battery text_ops people
     = Inr (table_checks people @ concat (map (column_checks text_ops people) (columns people)))
   \<and> name_col \<in> set (columns people) \<and> city_col \<in> set (columns people)
   \<and> dtype name_col = dtype city_col
   \<and> ''expect_column_values_to_be_unique''
       \<in> set (map expectation_type (column_results (label name_col)
           (table_checks people @ concat (map (column_checks text_ops people) (columns people)))))
   \<and> ''expect_column_values_to_be_unique''
       \<notin> set (map expectation_type (column_results (label city_col)
           (table_checks people @ concat (map (column_checks text_ops people) (columns people)))))"
proof -
  have mn: "name_col \<in> set (columns people)" and mc: "city_col \<in> set (columns people)"
    by (simp_all add: people_def)
  note crn = battery_column_results [OF people_battery mn]
  note crc = battery_column_results [OF people_battery mc]
  have n: "dropna (cells name_col) = [''ann'', ''bob'']" "dropna (cells city_col) = [''oslo'', ''oslo'']"
    by (simp_all add: name_col_def city_col_def)
  have k: "classify (dtype name_col) = String_like" "classify (dtype city_col) = String_like"
    by (simp_all add: name_col_def city_col_def object_dtype_def classify_def)
  have r: "row_count people = 2" by (simp add: people_def)
  have "''expect_column_values_to_be_unique''
       \<in> set (map expectation_type (column_results (label name_col)
           (table_checks people @ concat (map (column_checks text_ops people) (columns people)))))"
    unfolding crn column_checks_kinds n k r by (simp add: nunique_def)
  moreover have "''expect_column_values_to_be_unique''
       \<notin> set (map expectation_type (column_results (label city_col)
           (table_checks people @ concat (map (column_checks text_ops people) (columns people)))))"
    unfolding crc column_checks_kinds n k r by (simp add: nunique_def)
  moreover have "dtype name_col = dtype city_col" by (simp add: name_col_def city_col_def)
  moreover have "name_col \<in> set (columns people)" "city_col \<in> set (columns people)"
    by (simp_all add: people_def)
  ultimately show ?thesis using people_battery by blast
qed

text \<open>
  \<^bold>\<open>C7\<close>, amended. Every result of the battery that is scoped to a column names a
  column of the table, and the kinds of the results of a column are determined by the
  class of its dtype together with three observations of its values: whether it has a
  non-null value, whether the number of its distinct non-null values equals the row
  count, and whether that number is below 30. Two columns, of the same table or not,
  that agree on these four get the same kinds in the same order.
\<close>

theorem scopes_and_kinds:
  assumes "battery ops df = Inr rs" and "battery ops' df' = Inr rs'"
  shows "(\<forall>r\<in>set rs. \<forall>l. column r = Some l \<longrightarrow> l \<in> set (map label (columns df)))
    \<and> (\<forall>c\<in>set (columns df). \<forall>c'\<in>set (columns df').
          classify (dtype c) = classify (dtype c')
          \<and> (dropna (cells c) = []) = (dropna (cells c') = [])
          \<and> (nunique (dropna (cells c)) = row_count df)
              = (nunique (dropna (cells c')) = row_count df')
          \<and> (nunique (dropna (cells c)) < 30) = (nunique (dropna (cells c')) < 30)
          \<longrightarrow> map expectation_type (column_results (label c) rs)
              = map expectation_type (column_results (label c') rs'))"
proof (intro conjI ballI allI impI)
  fix r l assume r: "r \<in> set rs" and l: "column r = Some l"
  from column_loop_Inr [OF assms(1) [unfolded battery_def]] obtain cs where
    cs: "rs = table_checks df @ cs"
        "\<forall>r\<in>set cs. \<exists>l\<in>set (map label (columns df)). column r = Some l" by blast
  from r l cs(1) table_checks_column [of r df] have "r \<in> set cs" by auto
  with cs(2) obtain l' where "l' \<in> set (map label (columns df))" "column r = Some l'" by blast
  with l show "l \<in> set (map label (columns df))" by simp
next
  fix c c'
  assume c: "c \<in> set (columns df)" and c': "c' \<in> set (columns df')"
    and eq: "classify (dtype c) = classify (dtype c')
          \<and> (dropna (cells c) = []) = (dropna (cells c') = [])
          \<and> (nunique (dropna (cells c)) = row_count df)
              = (nunique (dropna (cells c')) = row_count df')
          \<and> (nunique (dropna (cells c)) < 30) = (nunique (dropna (cells c')) < 30)"
  have "column_results (label c) rs = column_checks ops df c"
    using assms(1) c by (rule battery_column_results)
  moreover have "column_results (label c') rs' = column_checks ops' df' c'"
    using assms(2) c' by (rule battery_column_results)
  moreover have "map expectation_type (column_checks ops df c)
      = map expectation_type (column_checks ops' df' c')"
    unfolding column_checks_kinds using eq by simp
  ultimately show "map expectation_type (column_results (label c) rs)
              = map expectation_type (column_results (label c') rs')" by simp
qed

text \<open>The two text columns of 2 and 255, and of 2 and 256 characters.\<close>

theorem scopes_and_kinds_witness:
  "battery text_ops short_text
     = Inr (table_checks short_text @ column_checks text_ops short_text short_col)
   \<and> battery text_ops long_text
     = Inr (table_checks long_text @ column_checks text_ops long_text long_col)
   \<and> short_col \<in> set (columns short_text) \<and> long_col \<in> set (columns long_text)
   \<and> classify (dtype short_col) = classify (dtype long_col)
   \<and> (dropna (cells short_col) = []) = (dropna (cells long_col) = [])
   \<and> (nunique (dropna (cells short_col)) = row_count short_text)
       = (nunique (dropna (cells long_col)) = row_count long_text)
   \<and> (nunique (dropna (cells short_col)) < 30) = (nunique (dropna (cells long_col)) < 30)
   \<and> map expectation_type (column_results (label short_col)
        (table_checks short_text @ column_checks text_ops short_text short_col))
     = map expectation_type (column_results (label long_col)
        (table_checks long_text @ column_checks text_ops long_text long_col))
   \<and> not_null_check short_text short_col
       \<in> set (table_checks short_text @ column_checks text_ops short_text short_col)
   \<and> column (not_null_check short_text short_col) = Some ''text''
   \<and> ''text'' \<in> set (map label (columns short_text))"
proof -
  have bs: "battery text_ops short_text
      = Inr (table_checks short_text @ column_checks text_ops short_text short_col)"
    using battery_distinct [of short_text text_ops]
    by (simp add: short_text_def text_ops_hashable)
  have bl: "battery text_ops long_text
      = Inr (table_checks long_text @ column_checks text_ops long_text long_col)"
    using battery_distinct [of long_text text_ops]
    by (simp add: long_text_def text_ops_hashable)
  have ms: "short_col \<in> set (columns short_text)" by (simp add: short_text_def)
  have ml: "long_col \<in> set (columns long_text)" by (simp add: long_text_def)
  have k: "classify (dtype short_col) = classify (dtype long_col)"
    by (simp add: short_col_def long_col_def)
  have e: "(dropna (cells short_col) = []) = (dropna (cells long_col) = [])"
    by (simp add: short_col_def long_col_def)
  have d: "''ab'' \<noteq> replicate n CHR ''x''" for n by (cases n) simp_all
  have ns: "nunique (dropna (cells short_col)) = 2"
    by (simp add: short_col_def nunique_def d)
  have nl: "nunique (dropna (cells long_col)) = 2"
    by (simp add: long_col_def nunique_def d)
  have u: "(nunique (dropna (cells short_col)) = row_count short_text)
       = (nunique (dropna (cells long_col)) = row_count long_text)"
    unfolding ns nl by (simp add: short_text_def long_text_def)
  have f: "(nunique (dropna (cells short_col)) < 30) = (nunique (dropna (cells long_col)) < 30)"
    unfolding ns nl by simp
  note sk = scopes_and_kinds [OF bs bl]
  have i: "not_null_check short_text short_col
       \<in> set (table_checks short_text @ column_checks text_ops short_text short_col)"
    by (simp add: column_checks_def)
  have sc: "column (not_null_check short_text short_col) = Some ''text''"
    by (simp add: not_null_check_def short_col_def)
  from sk i sc have 1: "''text'' \<in> set (map label (columns short_text))" by blast
  from sk ms ml k e u f have 2: "map expectation_type (column_results (label short_col)
        (table_checks short_text @ column_checks text_ops short_text short_col))
     = map expectation_type (column_results (label long_col)
        (table_checks long_text @ column_checks text_ops long_text long_col))" by blast
  from bs bl ms ml k e u f i sc 1 2 show ?thesis by blast
qed

section \<open>Loading and the whole function\<close>

lemma ext_txt: "lower (splitext_ext ''uploads/data.txt'') = ''.txt''"
  by (simp add: lower_def splitext_ext_def basename_def)

lemma ext_csv: "lower (splitext_ext ''uploads/bad.csv'') = ''.csv''"
  by (simp add: lower_def splitext_ext_def basename_def)

lemma ext_json: "lower (splitext_ext ''uploads/data.json'') = ''.json''"
  by (simp add: lower_def splitext_ext_def basename_def)

lemma ext_a: "lower (splitext_ext ''uploads/a.csv'') = ''.csv''"
  by (simp add: lower_def splitext_ext_def basename_def)


text \<open>
  \<^bold>\<open>C2\<close> as stated fails: an unknown extension and a file that its reader rejects
  both end in a \<^verbatim>\<open>ValueError\<close>, and the message for the unknown extension names that
  extension, not the supported formats.
\<close>

theorem load_error_kinds_counterexample:
  "load broken_world ''uploads/data.txt''
     = Inl (ValueError ''Error reading file: Unsupported file format: .txt'')
   \<and> load broken_world ''uploads/bad.csv''
     = Inl (ValueError ''Error reading file: No columns to parse from file'')"
  by (simp add: load_def try_read_def ext_txt ext_csv broken_world_def)

text \<open>
  \<^bold>\<open>C2\<close>, amended. For every path, loading fails with a \<^verbatim>\<open>ValueError\<close> whose
  message is \<^verbatim>\<open>Error reading file: Unsupported file format: \<close> followed by the
  lower-cased extension when that extension is none of \<^verbatim>\<open>.csv\<close>, \<^verbatim>\<open>.xlsx\<close>,
  \<^verbatim>\<open>.xls\<close>, \<^verbatim>\<open>.json\<close>, and with a \<^verbatim>\<open>ValueError\<close> whose message is
  \<^verbatim>\<open>Error reading file: \<close> followed by the reader's own message when the reader of
  the extension fails. Every failure of loading is a \<^verbatim>\<open>ValueError\<close> with that prefix.
\<close>

theorem load_errors:
  "(lower (splitext_ext p) \<notin> set [''.csv'', ''.xlsx'', ''.xls'', ''.json''] \<longrightarrow>
      load w p = Inl (ValueError (''Error reading file: Unsupported file format: ''
                                   @ lower (splitext_ext p))))
   \<and> (\<forall>msg. lower (splitext_ext p) = ''.csv'' \<and> read_csv w p = Inl msg \<longrightarrow>
         load w p = Inl (ValueError (''Error reading file: '' @ msg)))
   \<and> (\<forall>msg. lower (splitext_ext p) \<in> set [''.xlsx'', ''.xls''] \<and> read_excel w p = Inl msg \<longrightarrow>
         load w p = Inl (ValueError (''Error reading file: '' @ msg)))
   \<and> (\<forall>msg. lower (splitext_ext p) = ''.json'' \<and> read_json w p = Inl msg \<longrightarrow>
         load w p = Inl (ValueError (''Error reading file: '' @ msg)))
   \<and> (\<forall>e. load w p = Inl e \<longrightarrow>
         is_ValueError e \<and> (\<exists>msg. e = ValueError (''Error reading file: '' @ msg)))"
proof (intro conjI allI impI)
  assume "lower (splitext_ext p) \<notin> set [''.csv'', ''.xlsx'', ''.xls'', ''.json'']"
  then show "load w p = Inl (ValueError (''Error reading file: Unsupported file format: ''
                                   @ lower (splitext_ext p)))"
    by (simp add: load_def try_read_def)
next
  fix msg assume "lower (splitext_ext p) = ''.csv'' \<and> read_csv w p = Inl msg"
  then show "load w p = Inl (ValueError (''Error reading file: '' @ msg))"
    by (simp add: load_def try_read_def)
next
  fix msg assume "lower (splitext_ext p) \<in> set [''.xlsx'', ''.xls''] \<and> read_excel w p = Inl msg"
  then show "load w p = Inl (ValueError (''Error reading file: '' @ msg))"
    by (auto simp: load_def try_read_def)
next
  fix msg assume "lower (splitext_ext p) = ''.json'' \<and> read_json w p = Inl msg"
  then show "load w p = Inl (ValueError (''Error reading file: '' @ msg))"
    by (simp add: load_def try_read_def)
next
  fix e assume "load w p = Inl e"
  then show "is_ValueError e" by (auto simp: load_def split: sum.splits)
next
  fix e assume "load w p = Inl e"
  then show "\<exists>msg. e = ValueError (''Error reading file: '' @ msg)"
    by (auto simp: load_def split: sum.splits)
qed

text \<open>A text file, and a JSON file that the reader rejects.\<close>

theorem load_errors_witness:
  "lower (splitext_ext ''uploads/data.txt'') \<notin> set [''.csv'', ''.xlsx'', ''.xls'', ''.json'']
   \<and> load broken_world ''uploads/data.txt''
       = Inl (ValueError ''Error reading file: Unsupported file format: .txt'')
   \<and> lower (splitext_ext ''uploads/data.json'') = ''.json''
   \<and> read_json broken_world ''uploads/data.json'' = Inl ''Expected object or value''
   \<and> load broken_world ''uploads/data.json''
       = Inl (ValueError ''Error reading file: Expected object or value'')
   \<and> is_ValueError (ValueError ''Error reading file: Expected object or value'')"
proof -
  have 1: "lower (splitext_ext ''uploads/data.txt'') \<notin> set [''.csv'', ''.xlsx'', ''.xls'', ''.json'']"
    by (simp add: ext_txt)
  have 2: "read_json broken_world ''uploads/data.json'' = Inl ''Expected object or value''"
    by (simp add: broken_world_def)
  from load_errors [of "''uploads/data.txt''" broken_world] 1
  have a: "load broken_world ''uploads/data.txt''
       = Inl (ValueError ''Error reading file: Unsupported file format: .txt'')"
    by (simp add: ext_txt)
  from load_errors [of "''uploads/data.json''" broken_world] ext_json 2
  have b: "load broken_world ''uploads/data.json''
       = Inl (ValueError ''Error reading file: Expected object or value'')"
    by simp
  from load_errors [of "''uploads/data.json''" broken_world] b
  have c: "is_ValueError (ValueError ''Error reading file: Expected object or value'')"
    by blast
  from 1 a ext_json 2 b c show ?thesis by blast
qed

text \<open>
  \<^bold>\<open>C8.\<close> Whenever loading fails, the function raises that error and leaves the
  file system as it found it: no directory is created and no report is written.
\<close>

theorem load_failure_writes_nothing:
  assumes "load w filepath = Inl e"
  shows "validate_dataset_with_expectations w ops fs filepath report_folder = (Inl e, fs)"
  using assms by (simp add: validate_dataset_with_expectations_def)

text \<open>A JSON file that the reader rejects, on an empty file system.\<close>

theorem load_failure_writes_nothing_witness:
  "load broken_world ''uploads/data.json''
     = Inl (ValueError ''Error reading file: Expected object or value'')
   \<and> validate_dataset_with_expectations broken_world text_ops empty_fs
        ''uploads/data.json'' ''reports''
     = (Inl (ValueError ''Error reading file: Expected object or value''), empty_fs)"
proof -
  have l: "load broken_world ''uploads/data.json''
     = Inl (ValueError ''Error reading file: Expected object or value'')"
    by (simp add: load_def try_read_def ext_json broken_world_def)
  from load_failure_writes_nothing [OF l] l show ?thesis by simp
qed







text \<open>
  The report stage raises after the battery has returned: the Timedelta values of the
  table of durations stop \<^verbatim>\<open>json.dumps\<close>, and the folder is left without a report.
\<close>

lemma report_stage_raises:
  "validate_dataset_with_expectations (table_world waits ''2024-01-01 10:00:00'')
     timedelta_ops empty_fs ''uploads/a.csv'' ''reports''
   = (Inl (TypeError ''Object of type Timedelta is not JSON serializable''),
      empty_fs\<lparr>dirs := {''reports''}\<rparr>)"
proof -
  have h: "nunique_error timedelta_ops vs = None" for vs
    by (simp add: nunique_error_def timedelta_ops_def find_None_iff split: option.splits)
  have b: "battery timedelta_ops waits
      = Inr (table_checks waits @ column_checks timedelta_ops waits wait_col)"
    using battery_distinct [of waits timedelta_ops] by (simp add: waits_def h)
  have l: "load (table_world waits ''2024-01-01 10:00:00'') ''uploads/a.csv'' = Inr waits"
    by (simp add: load_def try_read_def ext_a table_world_def)
  have u: "unserializable timedelta_ops v = Some ''Timedelta''" for v
    by (simp add: timedelta_ops_def)
  have w: "makedirs_error (table_world waits ''2024-01-01 10:00:00'') ''reports'' = None"
    "getsize (table_world waits ''2024-01-01 10:00:00'') ''uploads/a.csv'' = Inr 64"
    by (simp_all add: table_world_def)
  show ?thesis
    by (simp add: validate_dataset_with_expectations_def l b u w
        table_checks_def row_count_check_def
        columns_match_check_def columns_unique_check_def column_checks_def
        not_null_check_def categorical_check_def wait_col_def timedelta_dtype_def
        nunique_def unique_def first_error_def dumps_error_def
        empty_fs_def Let_def)
qed

section \<open>The numeric checks\<close>

text \<open>
  What the range, mean and median checks hold, whatever the operations: the range check
  always passes and records the minimum and the maximum, and the mean and median checks
  compare the unrounded values and record them rounded to four decimals.
\<close>

lemma numeric_checks_contents:
  "numeric_checks ops df c ! 1 =
     \<lparr>expectation_type = ''expect_column_values_to_be_between'',
      success = True,
      column = Some (label c),
      result = [(''observed_value'',
                 JFmt [Lit ''min: '', FloatArg (series_min ops (dropna (cells c))),
                       Lit '', max: '', FloatArg (series_max ops (dropna (cells c)))]),
                (''element_count'', JInt (int (length (dropna (cells c))))),
                (''missing_count'', JInt (int (null_count c)))]\<rparr>"
  "numeric_checks ops df c ! 2 =
     \<lparr>expectation_type = ''expect_column_mean_to_be_between'',
      success = (series_min ops (dropna (cells c)) \<le> series_mean ops (dropna (cells c))
                 \<and> series_mean ops (dropna (cells c)) \<le> series_max ops (dropna (cells c))),
      column = Some (label c),
      result = [(''observed_value'', JFloat (py_round (series_mean ops (dropna (cells c))) 4)),
                (''details'',
                 JFmt [Lit ''Mean is within range ['',
                       FloatArg (series_min ops (dropna (cells c))), Lit '', '',
                       FloatArg (series_max ops (dropna (cells c))), Lit '']''])]\<rparr>"
  "numeric_checks ops df c ! 3 =
     \<lparr>expectation_type = ''expect_column_median_to_be_between'',
      success = (series_min ops (dropna (cells c)) \<le> series_median ops (dropna (cells c))
                 \<and> series_median ops (dropna (cells c)) \<le> series_max ops (dropna (cells c))),
      column = Some (label c),
      result = [(''observed_value'', JFloat (py_round (series_median ops (dropna (cells c))) 4)),
                (''details'',
                 JFmt [Lit ''Median is within range ['',
                       FloatArg (series_min ops (dropna (cells c))), Lit '', '',
                       FloatArg (series_max ops (dropna (cells c))), Lit '']''])]\<rparr>"
  by (simp_all add: numeric_checks_def Let_def)

lemma numeric_column_results:
  assumes "battery ops df = Inr rs" and "c \<in> set (columns df)"
    and "is_numeric_dtype (dtype c)" and "dropna (cells c) \<noteq> []"
  shows "column_results (label c) rs ! 2 = numeric_checks ops df c ! 1"
    and "column_results (label c) rs ! 3 = numeric_checks ops df c ! 2"
    and "column_results (label c) rs ! 4 = numeric_checks ops df c ! 3"
proof -
  have cr: "column_results (label c) rs = column_checks ops df c"
    using assms(1,2) by (rule battery_column_results)
  have cc: "column_checks ops df c
      = not_null_check df c # numeric_checks ops df c @ categorical_check c"
    using assms(3,4) by (simp add: column_checks_def)
  have len: "4 \<le> length (numeric_checks ops df c)"
    by (simp add: numeric_checks_def Let_def)
  show "column_results (label c) rs ! 2 = numeric_checks ops df c ! 1"
    and "column_results (label c) rs ! 3 = numeric_checks ops df c ! 2"
    and "column_results (label c) rs ! 4 = numeric_checks ops df c ! 3"
    unfolding cr cc using len by (simp_all add: nth_append numeral_2_eq_2 numeral_3_eq_3)
qed

lemma double_round_tenth: "double_round (1 / 10) = tenth"
  by code_simp

lemma float_mean_tenths:
  "float_mean [tenth, tenth, tenth] = 7205759403792795 / 72057594037927936"
  by code_simp

text \<open>
  \<^bold>\<open>C6\<close> fails on the code. For the column 0.1, 0.1, 0.1 the minimum and the maximum
  are the double nearest to 0.1; the float sum is 0.30000000000000004 and the mean
  0.10000000000000002, one step above the maximum. The fourth result of the column, the
  mean check, fails, while its own details say that the mean is within the range.
\<close>

theorem mean_in_range_fails_on_tenths:
  "battery float_ops tenths = Inr (table_checks tenths @ column_checks float_ops tenths x_col)
   \<and> expectation_type (column_results ''x''
        (table_checks tenths @ column_checks float_ops tenths x_col) ! 3)
       = ''expect_column_mean_to_be_between''
   \<and> \<not> success (column_results ''x''
        (table_checks tenths @ column_checks float_ops tenths x_col) ! 3)
   \<and> map_of (result (column_results ''x''
        (table_checks tenths @ column_checks float_ops tenths x_col) ! 3)) ''details''
       = Some (JFmt [Lit ''Mean is within range ['', FloatArg tenth, Lit '', '',
                     FloatArg tenth, Lit '']''])
   \<and> series_min float_ops (dropna (cells x_col)) = tenth
   \<and> series_max float_ops (dropna (cells x_col)) = tenth
   \<and> series_mean float_ops (dropna (cells x_col)) = 7205759403792795 / 72057594037927936
   \<and> tenth < 7205759403792795 / 72057594037927936"
proof -
  have h: "nunique_error float_ops vs = None" for vs
    by (simp add: nunique_error_def float_ops_def find_None_iff split: option.splits)
  have b: "battery float_ops tenths
      = Inr (table_checks tenths @ column_checks float_ops tenths x_col)"
    using battery_distinct [of tenths float_ops] by (simp add: tenths_def h)
  have m: "x_col \<in> set (columns tenths)" by (simp add: tenths_def)
  have n: "is_numeric_dtype (dtype x_col)" by (simp add: x_col_def float64_dtype_def)
  have v: "dropna (cells x_col) = [tenth, tenth, tenth]" by (simp add: x_col_def)
  have l: "label x_col = ''x''" by (simp add: x_col_def)
  have mn: "series_min float_ops (dropna (cells x_col)) = tenth"
    and mx: "series_max float_ops (dropna (cells x_col)) = tenth"
    unfolding v by (simp_all add: float_ops_def)
  have mean: "series_mean float_ops (dropna (cells x_col))
      = 7205759403792795 / 72057594037927936"
    unfolding v by (simp add: float_ops_def float_mean_tenths)
  have lt: "tenth < 7205759403792795 / 72057594037927936"
    by (simp add: tenth_def)
  have r: "column_results ''x'' (table_checks tenths @ column_checks float_ops tenths x_col) ! 3
      = numeric_checks float_ops tenths x_col ! 2"
    using numeric_column_results(2) [OF b m n] v l by simp
  show ?thesis
    unfolding r numeric_checks_contents(2) mn mx mean using b lt by simp
qed

end
